theory Spec2Isabelle
  imports Main "HOL-Library.Sublist"
begin

section \<open>Sensor partitioning of \<^verbatim>\<open>st2reactor/container/partitioner.py\<close>\<close>

text \<open>
  The module decides which sensors one sensor-container node runs. It reads its
  configuration from \<^verbatim>\<open>cfg.CONF\<close> and talks to three collaborators that are not part
  of the module: the sensor collection (\<^verbatim>\<open>SensorType\<close>), the key-value collection
  (\<^verbatim>\<open>KeyValuePair\<close>) and a YAML file. The collaborators and the three imported name
  constants are parameters of the model (record \<open>environment\<close>); everything the module
  itself does, including every \<^verbatim>\<open>raise\<close> and every Python error of its own
  expressions, is a branch of the definitions below.
\<close>

subsection \<open>Data\<close>

text \<open>
  A sensor document. The module reads only \<^verbatim>\<open>sensor.get_reference().ref\<close>, the field
  \<open>ref\<close>; \<open>enabled\<close> is the flag the database query selects on.
\<close>

record sensor =
  ref :: string
  enabled :: bool

text \<open>
  The exceptions of the module, with the arguments they are raised with, the Python
  errors its own expressions can raise, and \<open>CollaboratorError\<close> for whatever a
  collaborator raises (the module catches nothing, so it propagates unchanged).
\<close>

datatype error =
    SensorNotFoundException string
  | SensorPartitionerNotSupportedException string
  | SensorPartitionMapMissingException string string string
  | KeyError string
  | TypeError
  | AttributeError
  | CollaboratorError string

text \<open>A key-value document; \<open>kvp_value\<close> is \<^verbatim>\<open>kvp.value\<close>, \<open>None\<close> is Python's None.\<close>

record kvp =
  kvp_value :: "string option"

text \<open>
  What \<^verbatim>\<open>yaml.safe_load\<close> gives for a node's entry in the partition file: null, or
  a sequence of strings. The parsed document maps node names to such entries; a document
  of another shape (not a mapping, or an entry that is neither null nor a sequence of
  strings) is outside the model.
\<close>

datatype yaml_node = YamlNull | YamlSeq "string list"

type_synonym partition_map = "string \<rightharpoonup> yaml_node"

text \<open>
  What the module imports. The three loader names come from
  \<^verbatim>\<open>st2common.constants.sensors\<close>; \<open>SensorType_query_enabled\<close> is the result of
  \<^verbatim>\<open>SensorType.query(enabled=True)\<close>; \<open>SensorType_get_by_ref\<close> is
  \<^verbatim>\<open>SensorType.get_by_ref\<close> (\<open>None\<close> when there is no such sensor);
  \<open>KeyValuePair_get_by_name\<close> is \<^verbatim>\<open>KeyValuePair.get_by_name\<close>, which may raise, return
  None or return a document; \<open>yaml_safe_load\<close> is opening the file at a path and
  parsing it, which may raise.
\<close>

record environment =
  DEFAULT_PARTITION_LOADER :: string
  KVSTORE_PARTITION_LOADER :: string
  FILE_PARTITION_LOADER :: string
  SensorType_query_enabled :: "sensor list"
  SensorType_get_by_ref :: "string \<Rightarrow> sensor option"
  KeyValuePair_get_by_name :: "string \<Rightarrow> error + kvp option"
  yaml_safe_load :: "string \<Rightarrow> error + partition_map"

text \<open>
  A Python dict of the configuration, string to string, as an association list with
  distinct keys. Dict objects live in a store, addressed by their index, so that
  \<^verbatim>\<open>copy.copy\<close> and \<^verbatim>\<open>pop\<close> act on objects as they do in Python.
\<close>

type_synonym dict = "(string \<times> string) list"

type_synonym heap = "dict list"

text \<open>
  \<^verbatim>\<open>cfg.CONF\<close>: the direct sensor reference (\<open>None\<close> when not set), a reference to
  the \<^verbatim>\<open>partition_provider\<close> dict object, and the node name.
\<close>

record conf =
  sensor_ref :: "string option"
  sensorcontainer_partition_provider :: nat
  sensorcontainer_sensor_node_name :: string

subsection \<open>The string methods the module calls\<close>

text \<open>
  \<^verbatim>\<open>s.split(',')\<close>: the pieces between the commas, empty pieces included; the empty
  string gives one empty piece.
\<close>

fun split_comma :: "string \<Rightarrow> string list" where
  "split_comma [] = [[]]"
| "split_comma (c # cs) =
     (if c = CHR '','' then [] # split_comma cs
      else (case split_comma cs of
              [] \<Rightarrow> [[c]]
            | w # ws \<Rightarrow> (c # w) # ws))"

text \<open>
  \<^verbatim>\<open>s.strip()\<close> of a text value, as the key-value store returns it: the characters
  that Python's text type counts as whitespace are removed from both ends. A \<open>char\<close>
  of such a value stands for the code point of the same number, so a string is a text
  of code points below 256, and among these the whitespace is 0x09 to 0x0D (tab, line
  feed, vertical tab, form feed, carriage return), 0x1C to 0x1F (the four information
  separators), 0x20 (space), 0x85 (next line) and 0xA0 (no-break space). A text with a
  code point from 256 on has no counterpart in the type.
\<close>

definition isspace :: "char \<Rightarrow> bool" where
  "isspace c =
     (c = CHR 0x09 \<or> c = CHR 0x0A \<or> c = CHR 0x0B \<or> c = CHR 0x0C \<or> c = CHR 0x0D \<or>
      c = CHR 0x1C \<or> c = CHR 0x1D \<or> c = CHR 0x1E \<or> c = CHR 0x1F \<or>
      c = CHR 0x20 \<or> c = CHR 0x85 \<or> c = CHR 0xA0)"

definition strip :: "string \<Rightarrow> string" where
  "strip s = rev (dropWhile isspace (rev (dropWhile isspace s)))"

text \<open>\<^verbatim>\<open>s.lower()\<close> of a byte string: the letters A to Z become a to z.\<close>

definition lower_char :: "char \<Rightarrow> char" where
  "lower_char c =
     (case map_of (zip ''ABCDEFGHIJKLMNOPQRSTUVWXYZ'' ''abcdefghijklmnopqrstuvwxyz'') c of
        None \<Rightarrow> c
      | Some l \<Rightarrow> l)"

definition lower :: "string \<Rightarrow> string" where
  "lower s = map lower_char s"

subsection \<open>The partitioner classes\<close>

text \<open>
  An instance of one of the three classes, with its attributes
  (\<^verbatim>\<open>sensor_node_name\<close>, and \<^verbatim>\<open>partition_file\<close> for the file-based one).
\<close>

datatype partitioner =
    DefaultPartitioner string
  | KVStorePartitioner string
  | FileBasedPartitioner string string

definition get_all_enabled_sensors :: "environment \<Rightarrow> sensor list" where
  "get_all_enabled_sensors env = SensorType_query_enabled env"

definition get_partition_lookup_key :: "string \<Rightarrow> string" where
  "get_partition_lookup_key sensor_node_name = sensor_node_name @ ''.sensor_partition''"

text \<open>
  \<^verbatim>\<open>get_required_sensor_refs\<close>, by class. \<open>Inr None\<close> is the return value None
  (every enabled sensor); \<open>Inr (Some S)\<close> is the set \<open>S\<close>.
\<close>

fun get_required_sensor_refs :: "environment \<Rightarrow> partitioner \<Rightarrow> error + string set option" where
  "get_required_sensor_refs env (DefaultPartitioner sensor_node_name) = Inr None"
| "get_required_sensor_refs env (KVStorePartitioner sensor_node_name) =
     (case KeyValuePair_get_by_name env (get_partition_lookup_key sensor_node_name) of
        Inl e \<Rightarrow> Inl e
      | Inr None \<Rightarrow> Inl AttributeError
      | Inr (Some kvp) \<Rightarrow>
          (let sensor_refs_str =
                 (case kvp_value kvp of
                    None \<Rightarrow> []
                  | Some v \<Rightarrow> if v \<noteq> [] then v else [])
           in Inr (Some (set (map strip (split_comma sensor_refs_str))))))"
| "get_required_sensor_refs env (FileBasedPartitioner sensor_node_name partition_file) =
     (case yaml_safe_load env partition_file of
        Inl e \<Rightarrow> Inl e
      | Inr partition_map \<Rightarrow>
          (case partition_map sensor_node_name of
             None \<Rightarrow>
               Inl (SensorPartitionMapMissingException
                      ''Sensor partition not found for %s in %s.'' sensor_node_name partition_file)
           | Some YamlNull \<Rightarrow>
               Inl (SensorPartitionMapMissingException
                      ''Sensor partition not found for %s in %s.'' sensor_node_name partition_file)
           | Some (YamlSeq sensor_refs) \<Rightarrow> Inr (Some (set sensor_refs))))"

text \<open>The \<^verbatim>\<open>for\<close> loop of \<^verbatim>\<open>DefaultPartitioner.get_sensors\<close>, appending to the list.\<close>

fun partition_members_loop :: "string set \<Rightarrow> sensor list \<Rightarrow> sensor list \<Rightarrow> sensor list" where
  "partition_members_loop sensor_refs [] partition_members = partition_members"
| "partition_members_loop sensor_refs (s # rest) partition_members =
     partition_members_loop sensor_refs rest
       (if ref s \<in> sensor_refs then partition_members @ [s] else partition_members)"

text \<open>
  \<^verbatim>\<open>DefaultPartitioner.get_sensors\<close>, which the two subclasses inherit: the query runs
  first, then the class's own \<^verbatim>\<open>get_required_sensor_refs\<close>.
\<close>

definition partitioner_get_sensors :: "environment \<Rightarrow> partitioner \<Rightarrow> error + sensor list" where
  "partitioner_get_sensors env p =
     (let all_enabled_sensors = get_all_enabled_sensors env in
      case get_required_sensor_refs env p of
        Inl e \<Rightarrow> Inl e
      | Inr None \<Rightarrow> Inr all_enabled_sensors
      | Inr (Some sensor_refs) \<Rightarrow>
          Inr (partition_members_loop sensor_refs all_enabled_sensors []))"

subsection \<open>The single-sensor provider and the top-level function\<close>

definition SingleSensorProvider_get_sensors :: "environment \<Rightarrow> string \<Rightarrow> error + sensor list" where
  "SingleSensorProvider_get_sensors env r =
     (case SensorType_get_by_ref env r of
        None \<Rightarrow> Inl (SensorNotFoundException (''Sensor '' @ r @ '' not found in db.''))
      | Some s \<Rightarrow> Inr [s])"

datatype provider_class =
    DefaultPartitioner_class
  | KVStorePartitioner_class
  | FileBasedPartitioner_class

text \<open>The dict literal \<^verbatim>\<open>PROVIDERS\<close>: a later entry replaces an earlier one with the same key.\<close>

definition PROVIDERS :: "environment \<Rightarrow> string \<rightharpoonup> provider_class" where
  "PROVIDERS env =
     [DEFAULT_PARTITION_LOADER env \<mapsto> DefaultPartitioner_class,
      KVSTORE_PARTITION_LOADER env \<mapsto> KVStorePartitioner_class,
      FILE_PARTITION_LOADER env \<mapsto> FileBasedPartitioner_class]"

text \<open>
  Calling a class with \<^verbatim>\<open>sensor_node_name=...\<close> and the remaining configuration as
  keyword arguments: the constructors take \<^verbatim>\<open>sensor_node_name\<close> only, the file-based
  one \<^verbatim>\<open>partition_file\<close> too, and any other set of keywords is a TypeError.
\<close>

fun construct :: "provider_class \<Rightarrow> string \<Rightarrow> dict \<Rightarrow> error + partitioner" where
  "construct DefaultPartitioner_class sensor_node_name kwargs =
     (if kwargs = [] then Inr (DefaultPartitioner sensor_node_name) else Inl TypeError)"
| "construct KVStorePartitioner_class sensor_node_name kwargs =
     (if kwargs = [] then Inr (KVStorePartitioner sensor_node_name) else Inl TypeError)"
| "construct FileBasedPartitioner_class sensor_node_name kwargs =
     (case kwargs of
        [(k, partition_file)] \<Rightarrow>
          if k = ''partition_file''
          then Inr (FileBasedPartitioner sensor_node_name partition_file)
          else Inl TypeError
      | _ \<Rightarrow> Inl TypeError)"

text \<open>\<^verbatim>\<open>copy.copy(d)\<close>: a new dict object with the items of the one at \<open>a\<close>.\<close>

definition copy_copy :: "heap \<Rightarrow> nat \<Rightarrow> nat \<times> heap" where
  "copy_copy h a = (length h, h @ [h ! a])"

text \<open>\<^verbatim>\<open>d.pop(k)\<close>: removes the key from the object at \<open>a\<close> and returns its value.\<close>

definition dict_pop :: "heap \<Rightarrow> nat \<Rightarrow> string \<Rightarrow> error + (string \<times> heap)" where
  "dict_pop h a k =
     (case map_of (h ! a) k of
        None \<Rightarrow> Inl (KeyError k)
      | Some v \<Rightarrow> Inr (v, h[a := filter (\<lambda>kv. fst kv \<noteq> k) (h ! a)]))"

text \<open>
  The module's \<^verbatim>\<open>get_sensors\<close>. It returns the result (or the exception) and the
  store of dict objects as the call leaves it.
\<close>

definition get_sensors :: "environment \<Rightarrow> conf \<Rightarrow> heap \<Rightarrow> (error + sensor list) \<times> heap" where
  "get_sensors env CONF h =
     (if (case sensor_ref CONF of None \<Rightarrow> False | Some r \<Rightarrow> r \<noteq> [])
      then (SingleSensorProvider_get_sensors env (the (sensor_ref CONF)), h)
      else
        (let (partition_provider_config, h1) =
               copy_copy h (sensorcontainer_partition_provider CONF)
         in case dict_pop h1 partition_provider_config ''name'' of
              Inl e \<Rightarrow> (Inl e, h1)
            | Inr (partition_provider, h2) \<Rightarrow>
                (let sensor_node_name = sensorcontainer_sensor_node_name CONF
                 in case PROVIDERS env (lower partition_provider) of
                      None \<Rightarrow>
                        (Inl (SensorPartitionerNotSupportedException
                                (''Partition provider '' @ partition_provider @ '' not found.'')),
                         h2)
                    | Some provider \<Rightarrow>
                        (case construct provider sensor_node_name (h2 ! partition_provider_config) of
                           Inl e \<Rightarrow> (Inl e, h2)
                         | Inr p \<Rightarrow> (partitioner_get_sensors env p, h2)))))"

subsection \<open>Joining with commas\<close>

text \<open>
  \<^verbatim>\<open>','.join(pieces)\<close>. The module does not call it; it is the inverse that the
  properties of \<open>split_comma\<close> are stated against.
\<close>

fun join_comma :: "string list \<Rightarrow> string" where
  "join_comma [] = []"
| "join_comma [w] = w"
| "join_comma (w # v # ws) = w @ CHR '','' # join_comma (v # ws)"

subsection \<open>Values used in the examples\<close>

text \<open>Two enabled sensors.\<close>

definition sensor1 :: sensor where
  "sensor1 = \<lparr>ref = ''packA.s1'', enabled = True\<rparr>"

definition sensor2 :: sensor where
  "sensor2 = \<lparr>ref = ''packA.s2'', enabled = True\<rparr>"

text \<open>
  Modelled from the spec: the values of \<^verbatim>\<open>DEFAULT_PARTITION_LOADER\<close>,
  \<^verbatim>\<open>KVSTORE_PARTITION_LOADER\<close> and \<^verbatim>\<open>FILE_PARTITION_LOADER\<close> are defined in
  \<^verbatim>\<open>st2common.constants.sensors\<close>, which is not among the sources; the spec names the
  registry as default, key-value-store and file. The collaborators of this example
  environment hold the two sensors, six key-value documents (a lookup of any other key
  returns None) and one partition file.
\<close>

definition example_env :: environment where
  "example_env =
     \<lparr>DEFAULT_PARTITION_LOADER = ''default'',
      KVSTORE_PARTITION_LOADER = ''key-value-store'',
      FILE_PARTITION_LOADER = ''file'',
      SensorType_query_enabled = [sensor1, sensor2],
      SensorType_get_by_ref =
        (\<lambda>r. if r = ''packA.s1'' then Some sensor1 else if r = ''packA.s2'' then Some sensor2 else None),
      KeyValuePair_get_by_name =
        (\<lambda>k. if k = ''node1.sensor_partition'' then Inr (Some \<lparr>kvp_value = Some ''packA.s1''\<rparr>)
             else if k = ''node2.sensor_partition'' then Inr (Some \<lparr>kvp_value = Some []\<rparr>)
             else if k = ''node3.sensor_partition'' then Inr (Some \<lparr>kvp_value = None\<rparr>)
             else if k = ''node4.sensor_partition'' then Inr (Some \<lparr>kvp_value = Some ''a, b ,c''\<rparr>)
             else if k = ''node5.sensor_partition''
               then Inr (Some \<lparr>kvp_value = Some [CHR 0xA0, CHR ''a'']\<rparr>)
             else if k = ''node6.sensor_partition''
               then Inr (Some \<lparr>kvp_value =
                      Some [CHR 0x1F, CHR ''a'', CHR 0x1C, CHR '','', CHR 0x20, CHR ''b'']\<rparr>)
             else Inr None),
      yaml_safe_load =
        (\<lambda>f. if f = ''/etc/st2/partition.yaml''
             then Inr [''node1'' \<mapsto> YamlSeq [''packA.s2''], ''node2'' \<mapsto> YamlSeq [],
                       ''node3'' \<mapsto> YamlNull,
                       ''node4'' \<mapsto> YamlSeq [''packB.gone'', ''packA.s2'']]
             else Inl (CollaboratorError ''IOError''))\<rparr>"

section \<open>Properties\<close>

subsection \<open>The loop, the string methods and the top-level function\<close>

lemma partition_members_loop_filter:
  "partition_members_loop R xs acc = acc @ filter (\<lambda>s. ref s \<in> R) xs"
  by (induction xs arbitrary: acc) auto

lemma split_comma_not_Nil: "split_comma s \<noteq> []"
  by (induction s) (auto split: list.splits)

lemma join_comma_split_comma: "join_comma (split_comma s) = s"
proof (induction s)
  case Nil
  show ?case by simp
next
  case (Cons c cs)
  obtain w ws where sp: "split_comma cs = w # ws"
    using split_comma_not_Nil [of cs] by (cases "split_comma cs") auto
  show ?case
  proof (cases "c = CHR '',''")
    case True
    with Cons sp show ?thesis by simp
  next
    case False
    with Cons sp show ?thesis by (cases ws) auto
  qed
qed

lemma split_comma_pieces: "w \<in> set (split_comma s) \<Longrightarrow> CHR '','' \<notin> set w"
proof (induction s arbitrary: w)
  case Nil
  then show ?case by simp
next
  case (Cons c cs)
  then show ?case
    by (cases "split_comma cs") (auto split: if_splits)
qed

lemma rev_dropWhile_takeWhile:
  "rev (dropWhile P (rev xs)) @ rev (takeWhile P (rev xs)) = xs"
proof -
  have "rev (takeWhile P (rev xs) @ dropWhile P (rev xs)) = rev (rev xs)"
    by (simp only: takeWhile_dropWhile_id)
  then show ?thesis
    by (simp only: rev_append rev_rev_ident)
qed

lemma strip_decomposition:
  "\<exists>l r. s = l @ strip s @ r \<and> list_all isspace l \<and> list_all isspace r"
proof -
  define d where "d = dropWhile isspace s"
  have 1: "s = takeWhile isspace s @ d"
    by (simp add: d_def)
  have 2: "d = strip s @ rev (takeWhile isspace (rev d))"
    unfolding strip_def d_def by (rule rev_dropWhile_takeWhile [symmetric])
  have 3: "list_all isspace (takeWhile isspace s)"
    by (simp add: list_all_iff) (metis set_takeWhileD)
  have 4: "list_all isspace (rev (takeWhile isspace (rev d)))"
    by (simp add: list_all_iff) (metis set_takeWhileD)
  from 1 2 have "s = takeWhile isspace s @ strip s @ rev (takeWhile isspace (rev d))"
    by simp
  with 3 4 show ?thesis by blast
qed

lemma strip_ends:
  assumes "strip s \<noteq> []"
  shows "\<not> isspace (hd (strip s)) \<and> \<not> isspace (last (strip s))"
proof -
  define d where "d = dropWhile isspace s"
  have st: "strip s = rev (dropWhile isspace (rev d))"
    by (simp add: strip_def d_def)
  with assms have ne: "dropWhile isspace (rev d) \<noteq> []" by simp
  then have "\<not> isspace (hd (dropWhile isspace (rev d)))"
    by (rule hd_dropWhile)
  then have l: "\<not> isspace (last (strip s))"
    using ne by (simp add: st last_rev)
  from ne have dne: "d \<noteq> []" by auto
  then have hd: "\<not> isspace (hd d)"
    unfolding d_def by (rule hd_dropWhile)
  have "d = strip s @ rev (takeWhile isspace (rev d))"
    unfolding st by (rule rev_dropWhile_takeWhile [symmetric])
  with assms have "hd d = hd (strip s)"
    by (metis hd_append2)
  with hd l show ?thesis by simp
qed


lemma get_sensors_direct:
  assumes "sensor_ref CONF = Some r" and "r \<noteq> []"
  shows "get_sensors env CONF h = (SingleSensorProvider_get_sensors env r, h)"
  using assms by (simp add: get_sensors_def)

lemma get_sensors_partitioned:
  assumes "sensor_ref CONF = None \<or> sensor_ref CONF = Some []"
    and "sensorcontainer_partition_provider CONF < length h"
  shows "get_sensors env CONF h =
     (case map_of (h ! sensorcontainer_partition_provider CONF) ''name'' of
        None \<Rightarrow> (Inl (KeyError ''name''), h @ [h ! sensorcontainer_partition_provider CONF])
      | Some n \<Rightarrow>
          ((case PROVIDERS env (lower n) of
              None \<Rightarrow>
                Inl (SensorPartitionerNotSupportedException
                       (''Partition provider '' @ n @ '' not found.''))
            | Some c \<Rightarrow>
                (case construct c (sensorcontainer_sensor_node_name CONF)
                        (filter (\<lambda>kv. fst kv \<noteq> ''name'')
                           (h ! sensorcontainer_partition_provider CONF)) of
                   Inl e \<Rightarrow> Inl e
                 | Inr p \<Rightarrow> partitioner_get_sensors env p)),
           h @ [filter (\<lambda>kv. fst kv \<noteq> ''name'') (h ! sensorcontainer_partition_provider CONF)]))"
proof -
  have falsy: "\<not> (case sensor_ref CONF of None \<Rightarrow> False | Some r \<Rightarrow> r \<noteq> [])"
    using assms(1) by auto
  show ?thesis
    unfolding get_sensors_def copy_copy_def dict_pop_def
    using assms(2) falsy
    by (simp add: nth_append split: option.splits sum.splits)
qed


subsection \<open>The default partitioner\<close>

text \<open>
  Claim C5. For the default strategy \<^verbatim>\<open>get_required_sensor_refs\<close> always returns None,
  the value that stands for all sensors, and \<^verbatim>\<open>get_sensors\<close> returns the list of
  enabled sensors as the query gave it, whatever that list is, the empty one included.
\<close>

theorem default_partitioner_returns_all:
  "get_required_sensor_refs env (DefaultPartitioner n) = Inr None \<and>
   partitioner_get_sensors env (DefaultPartitioner n) = Inr (SensorType_query_enabled env)"
  by (simp add: partitioner_get_sensors_def get_all_enabled_sensors_def)

theorem default_partitioner_returns_all_witness:
  "partitioner_get_sensors example_env (DefaultPartitioner ''node1'') = Inr [sensor1, sensor2] \<and>
   partitioner_get_sensors (example_env\<lparr>SensorType_query_enabled := []\<rparr>)
     (DefaultPartitioner ''node1'') = Inr []"
  using default_partitioner_returns_all [of example_env "''node1''"]
    default_partitioner_returns_all [of "example_env\<lparr>SensorType_query_enabled := []\<rparr>" "''node1''"]
  by (simp add: example_env_def)

subsection \<open>Filtering by the required set\<close>

text \<open>
  Claim C3. For a partitioner of any of the three classes, when
  \<^verbatim>\<open>get_required_sensor_refs\<close> returns a set (not None), \<^verbatim>\<open>get_sensors\<close> returns
  without error exactly the enabled sensors whose reference is in the set, in the order
  of the query result: the result is a subsequence of the query result, so a reference
  of the set that no enabled sensor carries is dropped and nothing outside the enabled
  sensors is returned.
\<close>

theorem required_set_filters_catalog:
  assumes "get_required_sensor_refs env p = Inr (Some R)"
  shows "\<exists>members.
           partitioner_get_sensors env p = Inr members \<and>
           members = filter (\<lambda>s. ref s \<in> R) (SensorType_query_enabled env) \<and>
           subseq members (SensorType_query_enabled env) \<and>
           (\<forall>s. s \<in> set members \<longleftrightarrow> s \<in> set (SensorType_query_enabled env) \<and> ref s \<in> R)"
proof -
  have "partitioner_get_sensors env p =
          Inr (filter (\<lambda>s. ref s \<in> R) (SensorType_query_enabled env))"
    using assms
    by (simp add: partitioner_get_sensors_def get_all_enabled_sensors_def
        partition_members_loop_filter)
  then show ?thesis by auto
qed

theorem required_set_filters_catalog_witness:
  "get_required_sensor_refs example_env
      (FileBasedPartitioner ''node4'' ''/etc/st2/partition.yaml'') =
     Inr (Some {''packB.gone'', ''packA.s2''}) \<and>
   partitioner_get_sensors example_env
      (FileBasedPartitioner ''node4'' ''/etc/st2/partition.yaml'') = Inr [sensor2]"
proof -
  have req: "get_required_sensor_refs example_env
      (FileBasedPartitioner ''node4'' ''/etc/st2/partition.yaml'') =
     Inr (Some {''packB.gone'', ''packA.s2''})"
    by (simp add: example_env_def)
  show ?thesis
    using required_set_filters_catalog [OF req] req
    by (simp add: example_env_def sensor1_def sensor2_def)
qed

subsection \<open>The file-based partitioner\<close>

text \<open>
  Claim C2. For the file strategy, once the file has been read and parsed: when the
  mapping has no entry for the node, \<^verbatim>\<open>get_required_sensor_refs\<close> raises
  SensorPartitionMapMissingException, and so does \<^verbatim>\<open>get_sensors\<close>; when the node's entry
  is the empty sequence, the required set is empty and \<^verbatim>\<open>get_sensors\<close> returns the empty
  list without error.
\<close>

theorem file_partitioner_missing_or_empty:
  assumes "yaml_safe_load env partition_file = Inr partition_map"
  shows "(partition_map n = None \<longrightarrow>
            get_required_sensor_refs env (FileBasedPartitioner n partition_file) =
              Inl (SensorPartitionMapMissingException
                     ''Sensor partition not found for %s in %s.'' n partition_file) \<and>
            partitioner_get_sensors env (FileBasedPartitioner n partition_file) =
              Inl (SensorPartitionMapMissingException
                     ''Sensor partition not found for %s in %s.'' n partition_file)) \<and>
         (partition_map n = Some (YamlSeq []) \<longrightarrow>
            get_required_sensor_refs env (FileBasedPartitioner n partition_file) = Inr (Some {}) \<and>
            partitioner_get_sensors env (FileBasedPartitioner n partition_file) = Inr [])"
  using assms by (simp add: partitioner_get_sensors_def partition_members_loop_filter)

theorem file_partitioner_missing_or_empty_witness:
  "partitioner_get_sensors example_env (FileBasedPartitioner ''node9'' ''/etc/st2/partition.yaml'') =
     Inl (SensorPartitionMapMissingException
            ''Sensor partition not found for %s in %s.'' ''node9'' ''/etc/st2/partition.yaml'') \<and>
   partitioner_get_sensors example_env (FileBasedPartitioner ''node2'' ''/etc/st2/partition.yaml'') =
     Inr []"
proof -
  let ?pm = "[''node1'' \<mapsto> YamlSeq [''packA.s2''], ''node2'' \<mapsto> YamlSeq [],
              ''node3'' \<mapsto> YamlNull, ''node4'' \<mapsto> YamlSeq [''packB.gone'', ''packA.s2'']]"
  have load: "yaml_safe_load example_env ''/etc/st2/partition.yaml'' = Inr ?pm"
    by (simp add: example_env_def)
  have missing: "?pm ''node9'' = None" by simp
  have empty: "?pm ''node2'' = Some (YamlSeq [])" by simp
  show ?thesis
    using file_partitioner_missing_or_empty [OF load, of "''node9''"]
      file_partitioner_missing_or_empty [OF load, of "''node2''"] missing empty
    by simp
qed

text \<open>
  Claim C10. For the file strategy, a node entry that is null is treated as a missing
  entry: \<^verbatim>\<open>get_required_sensor_refs\<close> and \<^verbatim>\<open>get_sensors\<close> raise
  SensorPartitionMapMissingException. The exception is raised exactly when the entry
  is missing or null; an entry that is a sequence, the empty one included, gives the set of
  its elements.
\<close>

theorem file_partitioner_null_entry:
  assumes "yaml_safe_load env partition_file = Inr partition_map"
  shows "(partition_map n = Some YamlNull \<longrightarrow>
            get_required_sensor_refs env (FileBasedPartitioner n partition_file) =
              Inl (SensorPartitionMapMissingException
                     ''Sensor partition not found for %s in %s.'' n partition_file) \<and>
            partitioner_get_sensors env (FileBasedPartitioner n partition_file) =
              Inl (SensorPartitionMapMissingException
                     ''Sensor partition not found for %s in %s.'' n partition_file)) \<and>
         (get_required_sensor_refs env (FileBasedPartitioner n partition_file) =
              Inl (SensorPartitionMapMissingException
                     ''Sensor partition not found for %s in %s.'' n partition_file)
            \<longleftrightarrow> partition_map n = None \<or> partition_map n = Some YamlNull) \<and>
         (\<forall>sensor_refs. partition_map n = Some (YamlSeq sensor_refs) \<longrightarrow>
            get_required_sensor_refs env (FileBasedPartitioner n partition_file) =
              Inr (Some (set sensor_refs)))"
  using assms by (auto simp: partitioner_get_sensors_def split: option.splits yaml_node.splits)

theorem file_partitioner_null_entry_witness:
  "get_required_sensor_refs example_env (FileBasedPartitioner ''node3'' ''/etc/st2/partition.yaml'') =
     Inl (SensorPartitionMapMissingException
            ''Sensor partition not found for %s in %s.'' ''node3'' ''/etc/st2/partition.yaml'') \<and>
   partitioner_get_sensors example_env (FileBasedPartitioner ''node3'' ''/etc/st2/partition.yaml'') =
     Inl (SensorPartitionMapMissingException
            ''Sensor partition not found for %s in %s.'' ''node3'' ''/etc/st2/partition.yaml'')"
proof -
  let ?pm = "[''node1'' \<mapsto> YamlSeq [''packA.s2''], ''node2'' \<mapsto> YamlSeq [],
              ''node3'' \<mapsto> YamlNull, ''node4'' \<mapsto> YamlSeq [''packB.gone'', ''packA.s2'']]"
  have load: "yaml_safe_load example_env ''/etc/st2/partition.yaml'' = Inr ?pm"
    by (simp add: example_env_def)
  have null: "?pm ''node3'' = Some YamlNull" by simp
  show ?thesis
    using file_partitioner_null_entry [OF load, of "''node3''"] null
    by simp
qed

subsection \<open>The key-value partitioner\<close>

text \<open>
  Claim C1, as the code has it. For the key-value strategy, when the document found under
  \<^verbatim>\<open>'{node}.sensor_partition'\<close> has a value that is None or the empty string,
  \<^verbatim>\<open>get_required_sensor_refs\<close> returns the one-element set that holds the empty string:
  a set, not None, and not the empty set. \<^verbatim>\<open>get_sensors\<close> then returns the enabled
  sensors whose reference is the empty string, which is the empty list whenever no
  enabled sensor has an empty reference. When the lookup returns None instead of a
  document, reading \<^verbatim>\<open>kvp.value\<close> raises AttributeError, and when the lookup raises,
  its exception propagates: neither gives a set.
\<close>

theorem kv_null_or_empty_value:
  "(\<forall>kvp. KeyValuePair_get_by_name env (n @ ''.sensor_partition'') = Inr (Some kvp) \<and>
          (kvp_value kvp = None \<or> kvp_value kvp = Some []) \<longrightarrow>
      get_required_sensor_refs env (KVStorePartitioner n) = Inr (Some {[]}) \<and>
      partitioner_get_sensors env (KVStorePartitioner n) =
        Inr (filter (\<lambda>s. ref s = []) (SensorType_query_enabled env)) \<and>
      ((\<forall>s \<in> set (SensorType_query_enabled env). ref s \<noteq> []) \<longrightarrow>
         partitioner_get_sensors env (KVStorePartitioner n) = Inr [])) \<and>
   (KeyValuePair_get_by_name env (n @ ''.sensor_partition'') = Inr None \<longrightarrow>
      get_required_sensor_refs env (KVStorePartitioner n) = Inl AttributeError \<and>
      partitioner_get_sensors env (KVStorePartitioner n) = Inl AttributeError) \<and>
   (\<forall>e. KeyValuePair_get_by_name env (n @ ''.sensor_partition'') = Inl e \<longrightarrow>
      get_required_sensor_refs env (KVStorePartitioner n) = Inl e \<and>
      partitioner_get_sensors env (KVStorePartitioner n) = Inl e)"
proof -
  have empty_filter: "filter (\<lambda>s. ref s = []) xs = []" if "\<forall>s \<in> set xs. ref s \<noteq> []"
    for xs :: "sensor list"
    using that by (induction xs) auto
  show ?thesis
    by (auto simp: partitioner_get_sensors_def get_all_enabled_sensors_def
        get_partition_lookup_key_def partition_members_loop_filter strip_def empty_filter)
qed

theorem kv_null_or_empty_value_witness:
  "get_required_sensor_refs example_env (KVStorePartitioner ''node3'') = Inr (Some {[]}) \<and>
   partitioner_get_sensors example_env (KVStorePartitioner ''node3'') = Inr [] \<and>
   partitioner_get_sensors example_env (KVStorePartitioner ''node2'') = Inr [] \<and>
   partitioner_get_sensors example_env (KVStorePartitioner ''node9'') = Inl AttributeError"
  using kv_null_or_empty_value [of example_env "''node3''"]
    kv_null_or_empty_value [of example_env "''node2''"]
    kv_null_or_empty_value [of example_env "''node9''"]
  by (simp add: example_env_def sensor1_def sensor2_def)

text \<open>
  The set is not empty: for the stored value \<^verbatim>\<open>''\<close>, \<^verbatim>\<open>''.split(',')\<close> is the list
  \<^verbatim>\<open>['']\<close>, so the required set has one element. And for a key with no document the
  call does not return a set at all.
\<close>

theorem kv_empty_value_counterexample:
  "KeyValuePair_get_by_name example_env (get_partition_lookup_key ''node2'') =
     Inr (Some \<lparr>kvp_value = Some []\<rparr>) \<and>
   get_required_sensor_refs example_env (KVStorePartitioner ''node2'') = Inr (Some {[]}) \<and>
   get_required_sensor_refs example_env (KVStorePartitioner ''node2'') \<noteq> Inr (Some {}) \<and>
   KeyValuePair_get_by_name example_env (get_partition_lookup_key ''node9'') = Inr None \<and>
   get_required_sensor_refs example_env (KVStorePartitioner ''node9'') = Inl AttributeError"
  by (simp add: example_env_def get_partition_lookup_key_def strip_def)

text \<open>
  Claim C6. For the key-value strategy the lookup key is the node name followed by
  \<^verbatim>\<open>.sensor_partition\<close>, and the result depends on the collaborator at that key only.
  For the stored value \<^verbatim>\<open>"a, b ,c"\<close> the required set is exactly a, b, c; for every
  stored value it is the set of the comma-separated pieces, each stripped of surrounding
  whitespace (lemmas \<^verbatim>\<open>join_comma_split_comma\<close>, \<^verbatim>\<open>split_comma_pieces\<close>,
  \<^verbatim>\<open>strip_decomposition\<close> and \<^verbatim>\<open>strip_ends\<close> say what the pieces and the stripping are).
  The whitespace is that of Python's text type, not only the ASCII blanks: a leading
  no-break space is stripped (\<^verbatim>\<open>u'\xa0a'\<close> gives a), and so are the information
  separators (\<^verbatim>\<open>u'\x1fa\x1c, b'\<close> gives a and b).
\<close>

theorem kv_required_refs:
  "get_partition_lookup_key n = n @ ''.sensor_partition'' \<and>
   (KeyValuePair_get_by_name env (n @ ''.sensor_partition'') =
      Inr (Some \<lparr>kvp_value = Some ''a, b ,c''\<rparr>) \<longrightarrow>
    get_required_sensor_refs env (KVStorePartitioner n) = Inr (Some {''a'', ''b'', ''c''})) \<and>
   (\<forall>kvp v. KeyValuePair_get_by_name env (n @ ''.sensor_partition'') = Inr (Some kvp) \<and>
            kvp_value kvp = Some v \<longrightarrow>
      get_required_sensor_refs env (KVStorePartitioner n) =
        Inr (Some (strip ` set (split_comma v)))) \<and>
   (\<forall>env'. KeyValuePair_get_by_name env' (n @ ''.sensor_partition'') =
             KeyValuePair_get_by_name env (n @ ''.sensor_partition'') \<longrightarrow>
      get_required_sensor_refs env' (KVStorePartitioner n) =
        get_required_sensor_refs env (KVStorePartitioner n)) \<and>
   (KeyValuePair_get_by_name env (n @ ''.sensor_partition'') =
      Inr (Some \<lparr>kvp_value = Some [CHR 0xA0, CHR ''a'']\<rparr>) \<longrightarrow>
    get_required_sensor_refs env (KVStorePartitioner n) = Inr (Some {''a''})) \<and>
   (KeyValuePair_get_by_name env (n @ ''.sensor_partition'') =
      Inr (Some \<lparr>kvp_value =
             Some [CHR 0x1F, CHR ''a'', CHR 0x1C, CHR '','', CHR 0x20, CHR ''b'']\<rparr>) \<longrightarrow>
    get_required_sensor_refs env (KVStorePartitioner n) = Inr (Some {''a'', ''b''})) \<and>
   (\<forall>c. isspace c \<longleftrightarrow>
      c \<in> {CHR 0x09, CHR 0x0A, CHR 0x0B, CHR 0x0C, CHR 0x0D, CHR 0x1C, CHR 0x1D, CHR 0x1E,
           CHR 0x1F, CHR 0x20, CHR 0x85, CHR 0xA0})"
proof -
  have example: "strip ` set (split_comma ''a, b ,c'') = {''a'', ''b'', ''c''}"
    by (simp add: strip_def isspace_def)
  have nbsp: "strip ` set (split_comma [CHR 0xA0, CHR ''a'']) = {''a''}"
    by (simp add: strip_def isspace_def)
  have separators:
    "strip ` set (split_comma [CHR 0x1F, CHR ''a'', CHR 0x1C, CHR '','', CHR 0x20, CHR ''b'']) =
       {''a'', ''b''}"
    by (simp add: strip_def isspace_def)
  have spaces: "\<forall>c. isspace c \<longleftrightarrow>
      c \<in> {CHR 0x09, CHR 0x0A, CHR 0x0B, CHR 0x0C, CHR 0x0D, CHR 0x1C, CHR 0x1D, CHR 0x1E,
           CHR 0x1F, CHR 0x20, CHR 0x85, CHR 0xA0}"
    by (simp add: isspace_def)
  have general: "\<forall>kvp v. KeyValuePair_get_by_name env (n @ ''.sensor_partition'') = Inr (Some kvp) \<and>
            kvp_value kvp = Some v \<longrightarrow>
      get_required_sensor_refs env (KVStorePartitioner n) =
        Inr (Some (strip ` set (split_comma v)))"
    by (auto simp: get_partition_lookup_key_def)
  have key: "get_partition_lookup_key n = n @ ''.sensor_partition''"
    by (simp add: get_partition_lookup_key_def)
  have only: "\<forall>env'. KeyValuePair_get_by_name env' (n @ ''.sensor_partition'') =
             KeyValuePair_get_by_name env (n @ ''.sensor_partition'') \<longrightarrow>
      get_required_sensor_refs env' (KVStorePartitioner n) =
        get_required_sensor_refs env (KVStorePartitioner n)"
    by (simp add: get_partition_lookup_key_def)
  have e1: "KeyValuePair_get_by_name env (n @ ''.sensor_partition'') =
      Inr (Some \<lparr>kvp_value = Some ''a, b ,c''\<rparr>) \<longrightarrow>
    get_required_sensor_refs env (KVStorePartitioner n) = Inr (Some {''a'', ''b'', ''c''})"
    using general example by (metis kvp.select_convs(1))
  have e2: "KeyValuePair_get_by_name env (n @ ''.sensor_partition'') =
      Inr (Some \<lparr>kvp_value = Some [CHR 0xA0, CHR ''a'']\<rparr>) \<longrightarrow>
    get_required_sensor_refs env (KVStorePartitioner n) = Inr (Some {''a''})"
    using general nbsp by (metis kvp.select_convs(1))
  have e3: "KeyValuePair_get_by_name env (n @ ''.sensor_partition'') =
      Inr (Some \<lparr>kvp_value =
             Some [CHR 0x1F, CHR ''a'', CHR 0x1C, CHR '','', CHR 0x20, CHR ''b'']\<rparr>) \<longrightarrow>
    get_required_sensor_refs env (KVStorePartitioner n) = Inr (Some {''a'', ''b''})"
    using general separators by (metis kvp.select_convs(1))
  from key e1 general only e2 e3 spaces show ?thesis
    by (intro conjI)
qed

theorem kv_required_refs_witness:
  "get_partition_lookup_key ''node4'' = ''node4.sensor_partition'' \<and>
   get_required_sensor_refs example_env (KVStorePartitioner ''node4'') =
     Inr (Some {''a'', ''b'', ''c''}) \<and>
   get_required_sensor_refs example_env (KVStorePartitioner ''node5'') = Inr (Some {''a''}) \<and>
   get_required_sensor_refs example_env (KVStorePartitioner ''node6'') =
     Inr (Some {''a'', ''b''})"
proof -
  have lookup4: "KeyValuePair_get_by_name example_env (''node4'' @ ''.sensor_partition'') =
      Inr (Some \<lparr>kvp_value = Some ''a, b ,c''\<rparr>)"
    by (simp add: example_env_def)
  have lookup5: "KeyValuePair_get_by_name example_env (''node5'' @ ''.sensor_partition'') =
      Inr (Some \<lparr>kvp_value = Some [CHR 0xA0, CHR ''a'']\<rparr>)"
    by (simp add: example_env_def)
  have lookup6: "KeyValuePair_get_by_name example_env (''node6'' @ ''.sensor_partition'') =
      Inr (Some \<lparr>kvp_value =
             Some [CHR 0x1F, CHR ''a'', CHR 0x1C, CHR '','', CHR 0x20, CHR ''b'']\<rparr>)"
    by (simp add: example_env_def)
  note facts4 = kv_required_refs [of "''node4''" example_env]
  note facts5 = kv_required_refs [of "''node5''" example_env]
  note facts6 = kv_required_refs [of "''node6''" example_env]
  from facts4 lookup4
  have req4: "get_required_sensor_refs example_env (KVStorePartitioner ''node4'') =
      Inr (Some {''a'', ''b'', ''c''})"
    by blast
  from facts5 lookup5
  have req5: "get_required_sensor_refs example_env (KVStorePartitioner ''node5'') =
      Inr (Some {''a''})"
    by blast
  from facts6 lookup6
  have req6: "get_required_sensor_refs example_env (KVStorePartitioner ''node6'') =
      Inr (Some {''a'', ''b''})"
    by blast
  from facts4 have "get_partition_lookup_key ''node4'' = ''node4'' @ ''.sensor_partition''"
    by blast
  moreover have "''node4'' @ ''.sensor_partition'' = ''node4.sensor_partition''"
    by simp
  ultimately have key: "get_partition_lookup_key ''node4'' = ''node4.sensor_partition''"
    by (rule trans)
  from key req4 req5 req6 show ?thesis by (intro conjI)
qed

subsection \<open>The top-level function\<close>

text \<open>
  Claim C4. When \<^verbatim>\<open>cfg.CONF.sensor_ref\<close> is set (a non-empty string), the top-level
  \<^verbatim>\<open>get_sensors\<close> returns the one sensor that \<^verbatim>\<open>SensorType.get_by_ref\<close> finds and
  raises SensorNotFoundException exactly when it finds none. The result does not depend
  on the partition provider configuration or the node name, so a strategy name that is
  not registered does not matter; the configuration object is not touched.
\<close>

theorem direct_sensor_ref_overrides:
  assumes "sensor_ref CONF = Some r" and "r \<noteq> []"
  shows "get_sensors env CONF h =
           ((case SensorType_get_by_ref env r of
               None \<Rightarrow> Inl (SensorNotFoundException (''Sensor '' @ r @ '' not found in db.''))
             | Some s \<Rightarrow> Inr [s]), h) \<and>
         ((\<exists>e. fst (get_sensors env CONF h) = Inl e) \<longleftrightarrow> SensorType_get_by_ref env r = None) \<and>
         ((\<exists>msg. fst (get_sensors env CONF h) = Inl (SensorNotFoundException msg))
            \<longleftrightarrow> SensorType_get_by_ref env r = None) \<and>
         (\<forall>provider node h'.
            fst (get_sensors env
                   (CONF\<lparr>sensorcontainer_partition_provider := provider,
                         sensorcontainer_sensor_node_name := node\<rparr>) h') =
            fst (get_sensors env CONF h))"
  using assms
  by (auto simp: get_sensors_direct SingleSensorProvider_get_sensors_def split: option.splits)

theorem direct_sensor_ref_overrides_witness:
  "get_sensors example_env
     \<lparr>sensor_ref = Some ''packA.s1'', sensorcontainer_partition_provider = 0,
      sensorcontainer_sensor_node_name = ''node1''\<rparr>
     [[(''name'', ''no-such-strategy'')]] =
   (Inr [sensor1], [[(''name'', ''no-such-strategy'')]]) \<and>
   get_sensors example_env
     \<lparr>sensor_ref = Some ''packA.s7'', sensorcontainer_partition_provider = 0,
      sensorcontainer_sensor_node_name = ''node1''\<rparr>
     [[(''name'', ''default'')]] =
   (Inl (SensorNotFoundException ''Sensor packA.s7 not found in db.''), [[(''name'', ''default'')]])"
  using direct_sensor_ref_overrides
      [of "\<lparr>sensor_ref = Some ''packA.s1'', sensorcontainer_partition_provider = 0,
             sensorcontainer_sensor_node_name = ''node1''\<rparr>" "''packA.s1''" example_env
          "[[(''name'', ''no-such-strategy'')]]"]
    direct_sensor_ref_overrides
      [of "\<lparr>sensor_ref = Some ''packA.s7'', sensorcontainer_partition_provider = 0,
             sensorcontainer_sensor_node_name = ''node1''\<rparr>" "''packA.s7''" example_env
          "[[(''name'', ''default'')]]"]
  by (simp add: example_env_def)



text \<open>
  Claim C8. Without a direct sensor reference, a configured name whose lower-cased form
  is none of the three registered names makes the top-level \<^verbatim>\<open>get_sensors\<close> raise
  SensorPartitionerNotSupportedException; no list of sensors is returned.
\<close>

theorem unsupported_strategy_name:
  assumes "sensor_ref CONF = None \<or> sensor_ref CONF = Some []"
    and "sensorcontainer_partition_provider CONF < length h"
    and "map_of (h ! sensorcontainer_partition_provider CONF) ''name'' = Some n"
    and "lower n \<noteq> DEFAULT_PARTITION_LOADER env"
    and "lower n \<noteq> KVSTORE_PARTITION_LOADER env"
    and "lower n \<noteq> FILE_PARTITION_LOADER env"
  shows "fst (get_sensors env CONF h) =
           Inl (SensorPartitionerNotSupportedException
                  (''Partition provider '' @ n @ '' not found.'')) \<and>
         (\<forall>sensors. fst (get_sensors env CONF h) \<noteq> Inr sensors)"
proof -
  have "PROVIDERS env (lower n) = None"
    using assms(4-6) by (simp add: PROVIDERS_def)
  then show ?thesis
    using assms(3) by (simp add: get_sensors_partitioned [OF assms(1,2)])
qed

theorem unsupported_strategy_name_witness:
  "fst (get_sensors example_env
          \<lparr>sensor_ref = None, sensorcontainer_partition_provider = 0,
           sensorcontainer_sensor_node_name = ''node1''\<rparr> [[(''name'', ''Hash'')]]) =
   Inl (SensorPartitionerNotSupportedException ''Partition provider Hash not found.'')"
proof -
  let ?CONF = "\<lparr>sensor_ref = None, sensorcontainer_partition_provider = 0,
                 sensorcontainer_sensor_node_name = ''node1''\<rparr>"
  let ?h = "[[(''name'', ''Hash'')]]"
  have a1: "sensor_ref ?CONF = None \<or> sensor_ref ?CONF = Some []" by simp
  have a2: "sensorcontainer_partition_provider ?CONF < length ?h" by simp
  have a3: "map_of (?h ! sensorcontainer_partition_provider ?CONF) ''name'' = Some ''Hash''"
    by simp
  have a4: "lower ''Hash'' \<noteq> DEFAULT_PARTITION_LOADER example_env"
    by (simp add: example_env_def lower_def lower_char_def)
  have a5: "lower ''Hash'' \<noteq> KVSTORE_PARTITION_LOADER example_env"
    by (simp add: example_env_def lower_def lower_char_def)
  have a6: "lower ''Hash'' \<noteq> FILE_PARTITION_LOADER example_env"
    by (simp add: example_env_def lower_def lower_char_def)
  from unsupported_strategy_name [OF a1 a2 a3 a4 a5 a6]
  show ?thesis by simp
qed

text \<open>
  Claim C9. The top-level \<^verbatim>\<open>get_sensors\<close> leaves every dict object that existed before
  the call as it was, the \<^verbatim>\<open>partition_provider\<close> configuration and its \<^verbatim>\<open>name\<close> entry
  included: the key is popped from a new object made by \<^verbatim>\<open>copy.copy\<close>.
\<close>

theorem configuration_not_mutated:
  assumes "sensorcontainer_partition_provider CONF < length h"
  shows "take (length h) (snd (get_sensors env CONF h)) = h \<and>
         snd (get_sensors env CONF h) ! sensorcontainer_partition_provider CONF =
           h ! sensorcontainer_partition_provider CONF \<and>
         map_of (snd (get_sensors env CONF h) ! sensorcontainer_partition_provider CONF) ''name'' =
           map_of (h ! sensorcontainer_partition_provider CONF) ''name'' \<and>
         (\<forall>n. (sensor_ref CONF = None \<or> sensor_ref CONF = Some []) \<and>
              map_of (h ! sensorcontainer_partition_provider CONF) ''name'' = Some n \<longrightarrow>
              snd (get_sensors env CONF h) =
                h @ [filter (\<lambda>kv. fst kv \<noteq> ''name'')
                       (h ! sensorcontainer_partition_provider CONF)])"
proof (cases "sensor_ref CONF = None \<or> sensor_ref CONF = Some []")
  case True
  show ?thesis
    using assms
    by (simp add: get_sensors_partitioned [OF True assms] nth_append split: option.splits)
next
  case False
  then obtain r where "sensor_ref CONF = Some r" and "r \<noteq> []"
    by (cases "sensor_ref CONF") auto
  then show ?thesis
    by (simp add: get_sensors_direct)
qed

theorem configuration_not_mutated_witness:
  "snd (get_sensors example_env
          \<lparr>sensor_ref = None, sensorcontainer_partition_provider = 0,
           sensorcontainer_sensor_node_name = ''node1''\<rparr>
          [[(''name'', ''file''), (''partition_file'', ''/etc/st2/partition.yaml'')]]) =
     [[(''name'', ''file''), (''partition_file'', ''/etc/st2/partition.yaml'')],
      [(''partition_file'', ''/etc/st2/partition.yaml'')]]"
proof -
  let ?CONF = "\<lparr>sensor_ref = None, sensorcontainer_partition_provider = 0,
                 sensorcontainer_sensor_node_name = ''node1''\<rparr>"
  let ?h = "[[(''name'', ''file''), (''partition_file'', ''/etc/st2/partition.yaml'')]]"
  have a: "sensorcontainer_partition_provider ?CONF < length ?h" by simp
  from configuration_not_mutated [OF a, of example_env]
  show ?thesis by simp
qed

end
